theory Spec2Isabelle
  imports Main "HOL-Library.Word"
begin

unbundle bit_operations_syntax

section \<open>MemoryProtectionExceptionHandlerLib.c: the CMOS page-fault handler library\<close>

text \<open>
  The library has three functions: the page-fault handler
  \<open>MemoryProtectionExceptionHandlerCmos\<close>, the protocol-notify callback
  \<open>CpuArchRegisterMemoryProtectionExceptionHandlerCmos\<close> that registers it, and the
  library constructor \<open>MemoryProtectionExceptionHandlerCmosConstructor\<close>.
  Each of them only calls firmware services. The embedding therefore threads a
  \<open>world\<close> through every function: the list of service calls made so far, in order,
  the global \<open>mCpu\<close>, and the part of the firmware's state that the calls change
  (events created, protocol notifications registered, interrupt handlers installed).
  What a service answers is not decided by this library; the answers are the fields of
  an \<open>env\<close> record, so that every theorem quantifies over them.
\<close>

subsection \<open>UEFI base types\<close>

type_synonym EFI_STATUS = "64 word"
type_synonym EFI_EXCEPTION_TYPE = "64 word"
type_synonym EFI_EVENT = nat
type_synonym pointer = nat

definition EFI_SUCCESS :: EFI_STATUS where
  "EFI_SUCCESS = 0"

text \<open>\<open>EFI_ERROR (s)\<close> is \<open>((INTN) s) < 0\<close>: the top bit of the status marks an error.\<close>

definition EFI_ERROR :: "EFI_STATUS \<Rightarrow> bool" where
  "EFI_ERROR s = (sint s < 0)"

definition EXCEPT_IA32_PAGE_FAULT :: EFI_EXCEPTION_TYPE where
  "EXCEPT_IA32_PAGE_FAULT = 14"

definition EVT_NOTIFY_SIGNAL :: "32 word" where
  "EVT_NOTIFY_SIGNAL = 0x00000200"

definition TPL_CALLBACK :: "64 word" where
  "TPL_CALLBACK = 8"

datatype EFI_RESET_TYPE = EfiResetCold | EfiResetWarm | EfiResetShutdown | EfiResetPlatformSpecific

datatype EFI_GUID = gEfiCpuArchProtocolGuid | OtherGuid nat

datatype DEBUG_LEVEL = DEBUG_INFO | DEBUG_ERROR

text \<open>
  The processor context handed to an interrupt handler. The handler reads
  \<open>SystemContext.SystemContextX64->ExceptionData\<close>; the other registers are only
  passed on to \<open>DumpCpuContext\<close>.
\<close>

record EFI_SYSTEM_CONTEXT =
  ExceptionData :: "64 word"
  Registers :: "64 word list"

text \<open>Function pointers of this library, as the firmware stores them.\<close>

datatype interrupt_handler = MemoryProtectionExceptionHandlerCmos_ptr

datatype notify_function = CpuArchRegisterMemoryProtectionExceptionHandlerCmos_ptr

subsection \<open>Service calls and the world\<close>

datatype debug_arg = ArgStr string | ArgHex "64 word"

datatype call =
    DebugPrint DEBUG_LEVEL string "debug_arg list"
  | DumpCpuContext_call EFI_EXCEPTION_TYPE EFI_SYSTEM_CONTEXT
  | CmosWriteMemoryProtectionByte_call "8 word"
  | ResetSystem_call EFI_RESET_TYPE EFI_STATUS nat "pointer option"
  | LocateProtocol_call EFI_GUID
  | RegisterInterruptHandler_call EFI_EXCEPTION_TYPE interrupt_handler
  | CreateEvent_call "32 word" "64 word" notify_function "pointer option"
  | RegisterProtocolNotify_call EFI_GUID EFI_EVENT

record world =
  trace :: "call list"
  mCpu :: "pointer option"
  created_events :: "(EFI_EVENT \<times> notify_function) list"
  protocol_notifies :: "(EFI_GUID \<times> EFI_EVENT) list"
  interrupt_handlers :: "(EFI_EXCEPTION_TYPE \<times> interrupt_handler) list"

text \<open>
  The world at the start of a boot session: nothing called, \<open>mCpu = NULL\<close> as its
  initialiser says, nothing created or registered.
\<close>

definition boot_world :: world where
  "boot_world = \<lparr>trace = [], mCpu = None, created_events = [], protocol_notifies = [],
     interrupt_handlers = []\<rparr>"

text \<open>
  The answers of the collaborators, and the one constant the handler takes from
  \<open>MemoryProtectionExceptionCommon.h\<close>: the value of
  \<open>CMOS_MEM_PROT_VALID_BIT_MASK\<close> is fixed by that header and is a parameter here,
  so that what is proved holds for every value of it.
  \<open>uninitialised_event\<close> is whatever the constructor's local
  \<open>CpuArchExHandlerCallBackEvent\<close> holds before \<open>CreateEvent\<close> writes it.
\<close>

record env =
  CMOS_MEM_PROT_VALID_BIT_MASK :: "8 word"
  IsMemoryProtectionGlobalToggleEnabled :: bool
  CreateEvent_status :: EFI_STATUS
  CreateEvent_event :: EFI_EVENT
  uninitialised_event :: EFI_EVENT
  RegisterProtocolNotify_status :: EFI_STATUS
  LocateProtocol_status :: EFI_STATUS
  LocateProtocol_interface :: pointer
  RegisterInterruptHandler_status :: EFI_STATUS
  ResetSystem_returns :: bool

text \<open>Whether a call gives control back to its caller, or the machine has been reset.\<close>

datatype control = Returned | ResetNoReturn

definition record_call :: "call \<Rightarrow> world \<Rightarrow> world" where
  "record_call c w = w\<lparr>trace := trace w @ [c]\<rparr>"

definition DEBUG :: "DEBUG_LEVEL \<Rightarrow> string \<Rightarrow> debug_arg list \<Rightarrow> world \<Rightarrow> world" where
  "DEBUG level format args w = record_call (DebugPrint level format args) w"

definition DumpCpuContext :: "EFI_EXCEPTION_TYPE \<Rightarrow> EFI_SYSTEM_CONTEXT \<Rightarrow> world \<Rightarrow> world" where
  "DumpCpuContext InterruptType SystemContext w =
     record_call (DumpCpuContext_call InterruptType SystemContext) w"

definition CmosWriteMemoryProtectionByte :: "8 word \<Rightarrow> world \<Rightarrow> world" where
  "CmosWriteMemoryProtectionByte val w = record_call (CmosWriteMemoryProtectionByte_call val) w"

text \<open>
  \<open>gRT->ResetSystem\<close>: a reset that is carried out does not return. Whether the
  platform carries it out is the platform's answer \<open>ResetSystem_returns\<close>.
\<close>

definition ResetSystem ::
  "env \<Rightarrow> EFI_RESET_TYPE \<Rightarrow> EFI_STATUS \<Rightarrow> nat \<Rightarrow> pointer option \<Rightarrow> world \<Rightarrow> control \<times> world" where
  "ResetSystem e ResetType ResetStatus DataSize ResetData w =
     (if ResetSystem_returns e then Returned else ResetNoReturn,
      record_call (ResetSystem_call ResetType ResetStatus DataSize ResetData) w)"

text \<open>
  \<open>gBS->LocateProtocol (&guid, NULL, (VOID **) &mCpu)\<close>: the interface found is written
  to \<open>mCpu\<close>; on failure the firmware writes \<open>NULL\<close>.
\<close>

definition LocateProtocol :: "env \<Rightarrow> EFI_GUID \<Rightarrow> world \<Rightarrow> EFI_STATUS \<times> world" where
  "LocateProtocol e guid w =
     (LocateProtocol_status e,
      (record_call (LocateProtocol_call guid) w)
        \<lparr>mCpu := (if EFI_ERROR (LocateProtocol_status e) then None
                  else Some (LocateProtocol_interface e))\<rparr>)"

text \<open>
  \<open>mCpu->RegisterInterruptHandler\<close>: the dispatcher holds the handler from then on
  exactly when it does not answer with an error.
\<close>

definition RegisterInterruptHandler ::
  "env \<Rightarrow> EFI_EXCEPTION_TYPE \<Rightarrow> interrupt_handler \<Rightarrow> world \<Rightarrow> EFI_STATUS \<times> world" where
  "RegisterInterruptHandler e InterruptType h w =
     (RegisterInterruptHandler_status e,
      (record_call (RegisterInterruptHandler_call InterruptType h) w)
        \<lparr>interrupt_handlers :=
           (if EFI_ERROR (RegisterInterruptHandler_status e) then interrupt_handlers w
            else interrupt_handlers w @ [(InterruptType, h)])\<rparr>)"

text \<open>
  \<open>CreateEvent\<close> writes its last argument, the caller's \<open>EFI_EVENT\<close> variable, only
  when it succeeds; the third component of the result is that variable after the call.
\<close>

definition CreateEvent ::
  "env \<Rightarrow> 32 word \<Rightarrow> 64 word \<Rightarrow> notify_function \<Rightarrow> pointer option \<Rightarrow> EFI_EVENT \<Rightarrow> world
     \<Rightarrow> EFI_STATUS \<times> EFI_EVENT \<times> world" where
  "CreateEvent e Type NotifyTpl NotifyFunction NotifyContext Event w =
     (if EFI_ERROR (CreateEvent_status e)
      then (CreateEvent_status e, Event,
            record_call (CreateEvent_call Type NotifyTpl NotifyFunction NotifyContext) w)
      else (CreateEvent_status e, CreateEvent_event e,
            (record_call (CreateEvent_call Type NotifyTpl NotifyFunction NotifyContext) w)
              \<lparr>created_events := created_events w @ [(CreateEvent_event e, NotifyFunction)]\<rparr>))"

definition RegisterProtocolNotify ::
  "env \<Rightarrow> EFI_GUID \<Rightarrow> EFI_EVENT \<Rightarrow> world \<Rightarrow> EFI_STATUS \<times> world" where
  "RegisterProtocolNotify e Protocol Event w =
     (RegisterProtocolNotify_status e,
      (record_call (RegisterProtocolNotify_call Protocol Event) w)
        \<lparr>protocol_notifies :=
           (if EFI_ERROR (RegisterProtocolNotify_status e) then protocol_notifies w
            else protocol_notifies w @ [(Protocol, Event)])\<rparr>)"

subsection \<open>The three functions of the library\<close>

definition MemoryProtectionExceptionHandlerCmos ::
  "env \<Rightarrow> EFI_EXCEPTION_TYPE \<Rightarrow> EFI_SYSTEM_CONTEXT \<Rightarrow> world \<Rightarrow> control \<times> world" where
  "MemoryProtectionExceptionHandlerCmos e InterruptType SystemContext w =
     (let val = CMOS_MEM_PROT_VALID_BIT_MASK e;
          w1 = DEBUG DEBUG_ERROR ''%a - ExceptionData: 0x%x - InterruptType: 0x%x\<newline>''
                 [ArgStr ''MemoryProtectionExceptionHandlerCmos'',
                  ArgHex (ExceptionData SystemContext), ArgHex InterruptType] w;
          w2 = DumpCpuContext InterruptType SystemContext w1;
          w3 = CmosWriteMemoryProtectionByte val w2;
          w4 = DEBUG DEBUG_INFO ''%a - Resetting...\<newline>''
                 [ArgStr ''MemoryProtectionExceptionHandlerCmos''] w3
      in ResetSystem e EfiResetWarm EFI_SUCCESS 0 None w4)"

definition CpuArchRegisterMemoryProtectionExceptionHandlerCmos ::
  "env \<Rightarrow> EFI_EVENT \<Rightarrow> pointer option \<Rightarrow> world \<Rightarrow> world" where
  "CpuArchRegisterMemoryProtectionExceptionHandlerCmos e Event Context w =
     (case LocateProtocol e gEfiCpuArchProtocolGuid w of (Status, w1) \<Rightarrow>
        if EFI_ERROR Status
        then DEBUG DEBUG_INFO
               ''%a: - Failed to Locate gEfiCpuArchProtocolGuid.       Memory protections cannot be turned off via Page Fault handler\<newline>''
               [ArgStr ''CpuArchRegisterMemoryProtectionExceptionHandlerCmos''] w1
        else
          (case RegisterInterruptHandler e EXCEPT_IA32_PAGE_FAULT
                  MemoryProtectionExceptionHandlerCmos_ptr w1 of (Status', w2) \<Rightarrow>
             if EFI_ERROR Status'
             then DEBUG DEBUG_INFO
                    ''%a: - Failed to Register Exception Handler.       Memory protections cannot be turned off via Page Fault handler\<newline>''
                    [ArgStr ''CpuArchRegisterMemoryProtectionExceptionHandlerCmos''] w2
             else w2))"

definition MemoryProtectionExceptionHandlerCmosConstructor ::
  "env \<Rightarrow> pointer \<Rightarrow> pointer \<Rightarrow> world \<Rightarrow> EFI_STATUS \<times> world" where
  "MemoryProtectionExceptionHandlerCmosConstructor e ImageHandle SystemTable w =
     (if \<not> IsMemoryProtectionGlobalToggleEnabled e then (EFI_SUCCESS, w)
      else
        (case CreateEvent e EVT_NOTIFY_SIGNAL TPL_CALLBACK
                CpuArchRegisterMemoryProtectionExceptionHandlerCmos_ptr None
                (uninitialised_event e) w of
           (Status, CpuArchExHandlerCallBackEvent, w1) \<Rightarrow>
             let w2 = (if EFI_ERROR Status
                       then DEBUG DEBUG_INFO
                              ''%a: - Failed to create CpuArch Notify Event.       Memory protections cannot be turned off via Page Fault handler\<newline>''
                              [ArgStr ''MemoryProtectionExceptionHandlerCmosConstructor''] w1
                       else w1);
                 w3 = snd (RegisterProtocolNotify e gEfiCpuArchProtocolGuid
                             CpuArchExHandlerCallBackEvent w2)
             in (EFI_SUCCESS, w3)))"

subsection \<open>The firmware around the library\<close>

text \<open>
  The library's functions are never called by the library itself. The loader calls the
  constructor; the firmware signals an event registered with \<open>RegisterProtocolNotify\<close>
  when an interface of that protocol is installed, which runs the event's notify
  function; the interrupt dispatcher calls the handlers registered for an exception
  type when that exception is raised. The definitions below say only that much, so that
  claims about whole executions can be stated. A reset that does not return ends the
  execution.
\<close>

definition SignalEvent :: "env \<Rightarrow> EFI_EVENT \<Rightarrow> world \<Rightarrow> world" where
  "SignalEvent e Event w =
     (case map_of (created_events w) Event of
        None \<Rightarrow> w
      | Some CpuArchRegisterMemoryProtectionExceptionHandlerCmos_ptr \<Rightarrow>
          CpuArchRegisterMemoryProtectionExceptionHandlerCmos e Event None w)"

fun signal_all :: "env \<Rightarrow> EFI_EVENT list \<Rightarrow> world \<Rightarrow> world" where
  "signal_all e [] w = w"
| "signal_all e (Event # Events) w = signal_all e Events (SignalEvent e Event w)"

definition InstallProtocol :: "env \<Rightarrow> EFI_GUID \<Rightarrow> world \<Rightarrow> world" where
  "InstallProtocol e guid w =
     signal_all e (map snd (filter (\<lambda>n. fst n = guid) (protocol_notifies w))) w"

fun invoke_handlers ::
  "env \<Rightarrow> EFI_EXCEPTION_TYPE \<Rightarrow> EFI_SYSTEM_CONTEXT \<Rightarrow> interrupt_handler list \<Rightarrow> world
     \<Rightarrow> control \<times> world" where
  "invoke_handlers e t c [] w = (Returned, w)"
| "invoke_handlers e t c (MemoryProtectionExceptionHandlerCmos_ptr # hs) w =
     (case MemoryProtectionExceptionHandlerCmos e t c w of
        (ResetNoReturn, w') \<Rightarrow> (ResetNoReturn, w')
      | (Returned, w') \<Rightarrow> invoke_handlers e t c hs w')"

definition RaiseException ::
  "env \<Rightarrow> EFI_EXCEPTION_TYPE \<Rightarrow> EFI_SYSTEM_CONTEXT \<Rightarrow> world \<Rightarrow> control \<times> world" where
  "RaiseException e t c w =
     invoke_handlers e t c (map snd (filter (\<lambda>h. fst h = t) (interrupt_handlers w))) w"

datatype stimulus =
    LoadLibrary env
  | ProtocolInstalled EFI_GUID env
  | CpuException EFI_EXCEPTION_TYPE EFI_SYSTEM_CONTEXT env

fun step :: "stimulus \<Rightarrow> world \<Rightarrow> control \<times> world" where
  "step (LoadLibrary e) w = (Returned, snd (MemoryProtectionExceptionHandlerCmosConstructor e 0 0 w))"
| "step (ProtocolInstalled guid e) w = (Returned, InstallProtocol e guid w)"
| "step (CpuException t c e) w = RaiseException e t c w"

fun run :: "stimulus list \<Rightarrow> world \<Rightarrow> control \<times> world" where
  "run [] w = (Returned, w)"
| "run (s # ss) w =
     (case step s w of
        (ResetNoReturn, w') \<Rightarrow> (ResetNoReturn, w')
      | (Returned, w') \<Rightarrow> run ss w')"

subsection \<open>Observations on a trace\<close>

text \<open>The bytes written to the CMOS memory-protection byte, in order.\<close>

fun flag_writes :: "call list \<Rightarrow> 8 word list" where
  "flag_writes [] = []"
| "flag_writes (CmosWriteMemoryProtectionByte_call v # cs) = v # flag_writes cs"
| "flag_writes (_ # cs) = flag_writes cs"

text \<open>The arguments of the calls of \<open>ResetSystem\<close>, in order.\<close>

fun reset_calls :: "call list \<Rightarrow> (EFI_RESET_TYPE \<times> EFI_STATUS \<times> nat \<times> pointer option) list" where
  "reset_calls [] = []"
| "reset_calls (ResetSystem_call ty st n d # cs) = (ty, st, n, d) # reset_calls cs"
| "reset_calls (_ # cs) = reset_calls cs"

text \<open>The calls of \<open>RegisterInterruptHandler\<close>, in order.\<close>

fun registration_calls :: "call list \<Rightarrow> (EFI_EXCEPTION_TYPE \<times> interrupt_handler) list" where
  "registration_calls [] = []"
| "registration_calls (RegisterInterruptHandler_call t h # cs) = (t, h) # registration_calls cs"
| "registration_calls (_ # cs) = registration_calls cs"

text \<open>Diagnostic output: the debug log and the context dump. Every other call acts on the
  firmware or the platform.\<close>

fun is_diagnostic :: "call \<Rightarrow> bool" where
  "is_diagnostic (DebugPrint _ _ _) = True"
| "is_diagnostic (DumpCpuContext_call _ _) = True"
| "is_diagnostic _ = False"

definition effects :: "call list \<Rightarrow> call list" where
  "effects cs = filter (\<lambda>c. \<not> is_diagnostic c) cs"



text \<open>A load of the library at which the global toggle reads enabled.\<close>

fun reads_toggle_enabled :: "stimulus \<Rightarrow> bool" where
  "reads_toggle_enabled (LoadLibrary e) = IsMemoryProtectionGlobalToggleEnabled e"
| "reads_toggle_enabled _ = False"

text \<open>
  The interrupt-dispatch subsystem is not available at a stimulus: when a protocol
  notification fires there, \<open>LocateProtocol\<close> does not find the CPU architectural
  protocol.
\<close>

fun subsystem_unavailable :: "stimulus \<Rightarrow> bool" where
  "subsystem_unavailable (ProtocolInstalled guid e) = EFI_ERROR (LocateProtocol_status e)"
| "subsystem_unavailable _ = True"

text \<open>Nothing of the handler has happened in a world: it is not installed, was never
  registered, and neither the flag write nor the reset has been called.\<close>

definition untouched :: "world \<Rightarrow> bool" where
  "untouched w =
     (interrupt_handlers w = [] \<and> registration_calls (trace w) = [] \<and>
      flag_writes (trace w) = [] \<and> reset_calls (trace w) = [])"

subsection \<open>Status codes and platforms used in the examples\<close>

definition EFI_NOT_FOUND :: EFI_STATUS where
  "EFI_NOT_FOUND = 0x800000000000000E"

definition EFI_OUT_OF_RESOURCES :: EFI_STATUS where
  "EFI_OUT_OF_RESOURCES = 0x8000000000000009"

definition EFI_ALREADY_STARTED :: EFI_STATUS where
  "EFI_ALREADY_STARTED = 0x8000000000000014"

text \<open>A platform on which every service succeeds and the reset is carried out.\<close>

definition platform_ok :: env where
  "platform_ok =
     \<lparr>CMOS_MEM_PROT_VALID_BIT_MASK = 0x80,
      IsMemoryProtectionGlobalToggleEnabled = True,
      CreateEvent_status = EFI_SUCCESS,
      CreateEvent_event = 1,
      uninitialised_event = 0,
      RegisterProtocolNotify_status = EFI_SUCCESS,
      LocateProtocol_status = EFI_SUCCESS,
      LocateProtocol_interface = 1,
      RegisterInterruptHandler_status = EFI_SUCCESS,
      ResetSystem_returns = False\<rparr>"

definition page_fault_context :: EFI_SYSTEM_CONTEXT where
  "page_fault_context = \<lparr>ExceptionData = 0x3, Registers = []\<rparr>"

section \<open>Properties\<close>

subsection \<open>Basic facts\<close>

lemma handler_world:
  "snd (MemoryProtectionExceptionHandlerCmos e t c w) =
     w\<lparr>trace := trace w @
        [DebugPrint DEBUG_ERROR ''%a - ExceptionData: 0x%x - InterruptType: 0x%x\<newline>''
           [ArgStr ''MemoryProtectionExceptionHandlerCmos'', ArgHex (ExceptionData c), ArgHex t],
         DumpCpuContext_call t c,
         CmosWriteMemoryProtectionByte_call (CMOS_MEM_PROT_VALID_BIT_MASK e),
         DebugPrint DEBUG_INFO ''%a - Resetting...\<newline>''
           [ArgStr ''MemoryProtectionExceptionHandlerCmos''],
         ResetSystem_call EfiResetWarm EFI_SUCCESS 0 None]\<rparr>"
  by (simp add: MemoryProtectionExceptionHandlerCmos_def ResetSystem_def DEBUG_def
      DumpCpuContext_def CmosWriteMemoryProtectionByte_def record_call_def)

lemma EFI_ERROR_SUCCESS [simp]: "\<not> EFI_ERROR EFI_SUCCESS"
  by (simp add: EFI_ERROR_def EFI_SUCCESS_def)

lemma EFI_ERROR_NOT_FOUND [simp]: "EFI_ERROR EFI_NOT_FOUND"
  by (simp add: EFI_ERROR_def EFI_NOT_FOUND_def)

lemma EFI_ERROR_OUT_OF_RESOURCES [simp]: "EFI_ERROR EFI_OUT_OF_RESOURCES"
  by (simp add: EFI_ERROR_def EFI_OUT_OF_RESOURCES_def)

lemma EFI_ERROR_ALREADY_STARTED [simp]: "EFI_ERROR EFI_ALREADY_STARTED"
  by (simp add: EFI_ERROR_def EFI_ALREADY_STARTED_def)

lemma flag_writes_append [simp]: "flag_writes (xs @ ys) = flag_writes xs @ flag_writes ys"
  by (induction xs rule: flag_writes.induct) simp_all

lemma reset_calls_append [simp]: "reset_calls (xs @ ys) = reset_calls xs @ reset_calls ys"
  by (induction xs rule: reset_calls.induct) simp_all

lemma registration_calls_append [simp]:
  "registration_calls (xs @ ys) = registration_calls xs @ registration_calls ys"
  by (induction xs rule: registration_calls.induct) simp_all

lemma handler_control:
  "fst (MemoryProtectionExceptionHandlerCmos e t c w) =
     (if ResetSystem_returns e then Returned else ResetNoReturn)"
  by (simp add: MemoryProtectionExceptionHandlerCmos_def ResetSystem_def)

lemma registrar_locate_failed:
  assumes "EFI_ERROR (LocateProtocol_status e)"
  shows "CpuArchRegisterMemoryProtectionExceptionHandlerCmos e Event Context w =
     w\<lparr>trace := trace w @
         [LocateProtocol_call gEfiCpuArchProtocolGuid,
          DebugPrint DEBUG_INFO
            ''%a: - Failed to Locate gEfiCpuArchProtocolGuid.       Memory protections cannot be turned off via Page Fault handler\<newline>''
            [ArgStr ''CpuArchRegisterMemoryProtectionExceptionHandlerCmos'']],
        mCpu := None\<rparr>"
  using assms
  by (simp add: CpuArchRegisterMemoryProtectionExceptionHandlerCmos_def LocateProtocol_def
      DEBUG_def record_call_def)

lemma registrar_located:
  assumes "\<not> EFI_ERROR (LocateProtocol_status e)"
  shows "CpuArchRegisterMemoryProtectionExceptionHandlerCmos e Event Context w =
     w\<lparr>trace := trace w @
         [LocateProtocol_call gEfiCpuArchProtocolGuid,
          RegisterInterruptHandler_call EXCEPT_IA32_PAGE_FAULT MemoryProtectionExceptionHandlerCmos_ptr] @
         (if EFI_ERROR (RegisterInterruptHandler_status e)
          then [DebugPrint DEBUG_INFO
            ''%a: - Failed to Register Exception Handler.       Memory protections cannot be turned off via Page Fault handler\<newline>''
            [ArgStr ''CpuArchRegisterMemoryProtectionExceptionHandlerCmos'']]
          else []),
        mCpu := Some (LocateProtocol_interface e),
        interrupt_handlers :=
          (if EFI_ERROR (RegisterInterruptHandler_status e) then interrupt_handlers w
           else interrupt_handlers w @
             [(EXCEPT_IA32_PAGE_FAULT, MemoryProtectionExceptionHandlerCmos_ptr)])\<rparr>"
  using assms
  by (simp add: CpuArchRegisterMemoryProtectionExceptionHandlerCmos_def LocateProtocol_def
      RegisterInterruptHandler_def DEBUG_def record_call_def)

lemma constructor_disabled:
  "\<not> IsMemoryProtectionGlobalToggleEnabled e \<Longrightarrow>
     MemoryProtectionExceptionHandlerCmosConstructor e ImageHandle SystemTable w = (EFI_SUCCESS, w)"
  by (simp add: MemoryProtectionExceptionHandlerCmosConstructor_def)

lemma constructor_enabled:
  assumes "IsMemoryProtectionGlobalToggleEnabled e"
  shows "snd (MemoryProtectionExceptionHandlerCmosConstructor e ImageHandle SystemTable w) =
     w\<lparr>trace := trace w @
         [CreateEvent_call EVT_NOTIFY_SIGNAL TPL_CALLBACK
            CpuArchRegisterMemoryProtectionExceptionHandlerCmos_ptr None] @
         (if EFI_ERROR (CreateEvent_status e)
          then [DebugPrint DEBUG_INFO
            ''%a: - Failed to create CpuArch Notify Event.       Memory protections cannot be turned off via Page Fault handler\<newline>''
            [ArgStr ''MemoryProtectionExceptionHandlerCmosConstructor'']]
          else []) @
         [RegisterProtocolNotify_call gEfiCpuArchProtocolGuid
            (if EFI_ERROR (CreateEvent_status e) then uninitialised_event e
             else CreateEvent_event e)],
        created_events :=
          (if EFI_ERROR (CreateEvent_status e) then created_events w
           else created_events w @
             [(CreateEvent_event e, CpuArchRegisterMemoryProtectionExceptionHandlerCmos_ptr)]),
        protocol_notifies :=
          (if EFI_ERROR (RegisterProtocolNotify_status e) then protocol_notifies w
           else protocol_notifies w @
             [(gEfiCpuArchProtocolGuid,
               if EFI_ERROR (CreateEvent_status e) then uninitialised_event e
               else CreateEvent_event e)])\<rparr>"
  using assms
  by (simp add: MemoryProtectionExceptionHandlerCmosConstructor_def CreateEvent_def
      RegisterProtocolNotify_def DEBUG_def record_call_def)

lemma constructor_status:
  "fst (MemoryProtectionExceptionHandlerCmosConstructor e ImageHandle SystemTable w) = EFI_SUCCESS"
  by (simp add: MemoryProtectionExceptionHandlerCmosConstructor_def split: prod.split)


subsection \<open>The fault handler\<close>

text \<open>
  Claim C1. Whatever the exception type, the processor context, the platform and the
  calls made before, the handler makes exactly five calls, in this order: the
  \<open>DEBUG_ERROR\<close> record with the exception data and the interrupt type, the dump of
  the processor context, the write of the CMOS memory-protection byte, the
  \<open>DEBUG_INFO\<close> notice that a reset follows, and
  \<open>ResetSystem (EfiResetWarm, EFI_SUCCESS, 0, NULL)\<close>. The reset is the last call,
  so it never precedes the write of the byte.
\<close>

theorem handler_action_order:
  "trace (snd (MemoryProtectionExceptionHandlerCmos e InterruptType SystemContext w)) =
     trace w @
       [DebugPrint DEBUG_ERROR ''%a - ExceptionData: 0x%x - InterruptType: 0x%x\<newline>''
          [ArgStr ''MemoryProtectionExceptionHandlerCmos'',
           ArgHex (ExceptionData SystemContext), ArgHex InterruptType],
        DumpCpuContext_call InterruptType SystemContext,
        CmosWriteMemoryProtectionByte_call (CMOS_MEM_PROT_VALID_BIT_MASK e),
        DebugPrint DEBUG_INFO ''%a - Resetting...\<newline>''
          [ArgStr ''MemoryProtectionExceptionHandlerCmos''],
        ResetSystem_call EfiResetWarm EFI_SUCCESS 0 None]"
  by (simp add: handler_world)



text \<open>
  Claim C8. The handler's last call is \<open>ResetSystem\<close>, made after the write of the
  byte, and the handler has no statement after it. With a reset that does not return,
  as the platform carries it out, no invocation of the handler returns to the faulting
  context.
\<close>

theorem handler_never_returns:
  "\<not> ResetSystem_returns e \<Longrightarrow>
     fst (MemoryProtectionExceptionHandlerCmos e InterruptType SystemContext w) = ResetNoReturn \<and>
     last (trace (snd (MemoryProtectionExceptionHandlerCmos e InterruptType SystemContext w))) =
       ResetSystem_call EfiResetWarm EFI_SUCCESS 0 None \<and>
     flag_writes (butlast (trace (snd (MemoryProtectionExceptionHandlerCmos e InterruptType
        SystemContext w)))) = flag_writes (trace w) @ [CMOS_MEM_PROT_VALID_BIT_MASK e]"
  by (simp add: handler_control handler_world butlast_append)

theorem handler_never_returns_witness:
  "\<not> ResetSystem_returns platform_ok \<and>
   fst (MemoryProtectionExceptionHandlerCmos platform_ok EXCEPT_IA32_PAGE_FAULT
      page_fault_context boot_world) = ResetNoReturn \<and>
   last (trace (snd (MemoryProtectionExceptionHandlerCmos platform_ok EXCEPT_IA32_PAGE_FAULT
      page_fault_context boot_world))) = ResetSystem_call EfiResetWarm EFI_SUCCESS 0 None"
  using handler_never_returns [of platform_ok EXCEPT_IA32_PAGE_FAULT page_fault_context boot_world]
  by (simp add: platform_ok_def)

text \<open>
  The hypothesis of C8 is needed: the handler has nothing after the call of
  \<open>ResetSystem\<close>, so where that call comes back the handler returns to its caller.
\<close>

lemma handler_returns_if_reset_returns:
  "ResetSystem_returns e \<Longrightarrow>
     fst (MemoryProtectionExceptionHandlerCmos e InterruptType SystemContext w) = Returned"
  by (simp add: handler_control)

text \<open>
  Claim C10. The calls of the handler that are not diagnostic output are the same for
  any two pairs of exception type and processor context: the write of the constant
  \<open>CMOS_MEM_PROT_VALID_BIT_MASK\<close> and \<open>ResetSystem (EfiResetWarm, EFI_SUCCESS, 0,
  NULL)\<close>. Whether the handler returns, and everything of the world but the trace,
  do not depend on the pair either. The pair shows only in the debug record and in the
  context dump.
\<close>

theorem handler_effects_input_independent:
  "effects (trace (snd (MemoryProtectionExceptionHandlerCmos e InterruptType1 SystemContext1 w))) =
     effects (trace w) @
       [CmosWriteMemoryProtectionByte_call (CMOS_MEM_PROT_VALID_BIT_MASK e),
        ResetSystem_call EfiResetWarm EFI_SUCCESS 0 None] \<and>
   effects (trace (snd (MemoryProtectionExceptionHandlerCmos e InterruptType1 SystemContext1 w))) =
     effects (trace (snd (MemoryProtectionExceptionHandlerCmos e InterruptType2 SystemContext2 w))) \<and>
   fst (MemoryProtectionExceptionHandlerCmos e InterruptType1 SystemContext1 w) =
     fst (MemoryProtectionExceptionHandlerCmos e InterruptType2 SystemContext2 w) \<and>
   (snd (MemoryProtectionExceptionHandlerCmos e InterruptType1 SystemContext1 w))\<lparr>trace := []\<rparr> =
     (snd (MemoryProtectionExceptionHandlerCmos e InterruptType2 SystemContext2 w))\<lparr>trace := []\<rparr>"
  by (simp add: handler_world handler_control effects_def)

subsection \<open>The deferred registrar\<close>

text \<open>
  Claim C5. When \<open>LocateProtocol\<close> fails, the registrar makes two calls only, the
  failed \<open>LocateProtocol\<close> and one \<open>DEBUG_INFO\<close> message, and returns: it does not
  call \<open>RegisterInterruptHandler\<close>, and the handlers installed are those installed
  before.
\<close>

theorem registrar_absorbs_locate_failure:
  "EFI_ERROR (LocateProtocol_status e) \<Longrightarrow>
     trace (CpuArchRegisterMemoryProtectionExceptionHandlerCmos e Event Context w) =
       trace w @
         [LocateProtocol_call gEfiCpuArchProtocolGuid,
          DebugPrint DEBUG_INFO
            ''%a: - Failed to Locate gEfiCpuArchProtocolGuid.       Memory protections cannot be turned off via Page Fault handler\<newline>''
            [ArgStr ''CpuArchRegisterMemoryProtectionExceptionHandlerCmos'']] \<and>
     registration_calls (trace (CpuArchRegisterMemoryProtectionExceptionHandlerCmos e Event Context w)) =
       registration_calls (trace w) \<and>
     interrupt_handlers (CpuArchRegisterMemoryProtectionExceptionHandlerCmos e Event Context w) =
       interrupt_handlers w"
  by (simp add: registrar_locate_failed)

theorem registrar_absorbs_locate_failure_witness:
  "EFI_ERROR (LocateProtocol_status (platform_ok\<lparr>LocateProtocol_status := EFI_NOT_FOUND\<rparr>)) \<and>
   trace (CpuArchRegisterMemoryProtectionExceptionHandlerCmos
       (platform_ok\<lparr>LocateProtocol_status := EFI_NOT_FOUND\<rparr>) 1 None boot_world) =
     [LocateProtocol_call gEfiCpuArchProtocolGuid,
      DebugPrint DEBUG_INFO
        ''%a: - Failed to Locate gEfiCpuArchProtocolGuid.       Memory protections cannot be turned off via Page Fault handler\<newline>''
        [ArgStr ''CpuArchRegisterMemoryProtectionExceptionHandlerCmos'']] \<and>
   interrupt_handlers (CpuArchRegisterMemoryProtectionExceptionHandlerCmos
       (platform_ok\<lparr>LocateProtocol_status := EFI_NOT_FOUND\<rparr>) 1 None boot_world) = []"
  using registrar_absorbs_locate_failure
    [of "platform_ok\<lparr>LocateProtocol_status := EFI_NOT_FOUND\<rparr>" 1 None boot_world]
  by (simp add: boot_world_def)

text \<open>
  Claim C7, as the code has it. The registrar keeps no record of an earlier success.
  Whenever \<open>LocateProtocol\<close> succeeds, whatever was called or installed before, in
  particular at a second firing after a successful first one, it makes the same calls
  as the first time: \<open>LocateProtocol\<close>, then \<open>RegisterInterruptHandler\<close> for the
  page fault. When the dispatcher rejects that registration the registrar's only
  further call is one \<open>DEBUG_INFO\<close> message, and the handlers installed are those
  installed before. When the dispatcher accepts it the registrar calls nothing more,
  and the handler is installed once more.
\<close>

theorem second_firing_repeats_registration:
  "\<not> EFI_ERROR (LocateProtocol_status e) \<Longrightarrow>
     (EFI_ERROR (RegisterInterruptHandler_status e) \<longrightarrow>
        trace (CpuArchRegisterMemoryProtectionExceptionHandlerCmos e Event Context w) =
          trace w @
            [LocateProtocol_call gEfiCpuArchProtocolGuid,
             RegisterInterruptHandler_call EXCEPT_IA32_PAGE_FAULT
               MemoryProtectionExceptionHandlerCmos_ptr,
             DebugPrint DEBUG_INFO
               ''%a: - Failed to Register Exception Handler.       Memory protections cannot be turned off via Page Fault handler\<newline>''
               [ArgStr ''CpuArchRegisterMemoryProtectionExceptionHandlerCmos'']] \<and>
        interrupt_handlers (CpuArchRegisterMemoryProtectionExceptionHandlerCmos e Event Context w) =
          interrupt_handlers w) \<and>
     (\<not> EFI_ERROR (RegisterInterruptHandler_status e) \<longrightarrow>
        trace (CpuArchRegisterMemoryProtectionExceptionHandlerCmos e Event Context w) =
          trace w @
            [LocateProtocol_call gEfiCpuArchProtocolGuid,
             RegisterInterruptHandler_call EXCEPT_IA32_PAGE_FAULT
               MemoryProtectionExceptionHandlerCmos_ptr] \<and>
        interrupt_handlers (CpuArchRegisterMemoryProtectionExceptionHandlerCmos e Event Context w) =
          interrupt_handlers w @
            [(EXCEPT_IA32_PAGE_FAULT, MemoryProtectionExceptionHandlerCmos_ptr)])"
  by (simp add: registrar_located)

text \<open>
  A second firing at which the dispatcher answers \<open>EFI_ALREADY_STARTED\<close>, after a
  first one that succeeded: \<open>LocateProtocol\<close> and \<open>RegisterInterruptHandler\<close> are
  called again, the failure is logged, and one handler stays installed.
\<close>

theorem second_firing_repeats_registration_witness:
  "\<not> EFI_ERROR (LocateProtocol_status (platform_ok\<lparr>RegisterInterruptHandler_status := EFI_ALREADY_STARTED\<rparr>)) \<and>
   EFI_ERROR (RegisterInterruptHandler_status (platform_ok\<lparr>RegisterInterruptHandler_status := EFI_ALREADY_STARTED\<rparr>)) \<and>
   trace (CpuArchRegisterMemoryProtectionExceptionHandlerCmos
       (platform_ok\<lparr>RegisterInterruptHandler_status := EFI_ALREADY_STARTED\<rparr>) 1 None
       (CpuArchRegisterMemoryProtectionExceptionHandlerCmos platform_ok 1 None boot_world)) =
     [LocateProtocol_call gEfiCpuArchProtocolGuid,
      RegisterInterruptHandler_call EXCEPT_IA32_PAGE_FAULT MemoryProtectionExceptionHandlerCmos_ptr,
      LocateProtocol_call gEfiCpuArchProtocolGuid,
      RegisterInterruptHandler_call EXCEPT_IA32_PAGE_FAULT MemoryProtectionExceptionHandlerCmos_ptr,
      DebugPrint DEBUG_INFO
        ''%a: - Failed to Register Exception Handler.       Memory protections cannot be turned off via Page Fault handler\<newline>''
        [ArgStr ''CpuArchRegisterMemoryProtectionExceptionHandlerCmos'']] \<and>
   interrupt_handlers (CpuArchRegisterMemoryProtectionExceptionHandlerCmos
       (platform_ok\<lparr>RegisterInterruptHandler_status := EFI_ALREADY_STARTED\<rparr>) 1 None
       (CpuArchRegisterMemoryProtectionExceptionHandlerCmos platform_ok 1 None boot_world)) =
     [(EXCEPT_IA32_PAGE_FAULT, MemoryProtectionExceptionHandlerCmos_ptr)]"
  using second_firing_repeats_registration
    [of "platform_ok\<lparr>RegisterInterruptHandler_status := EFI_ALREADY_STARTED\<rparr>" 1 None
        "CpuArchRegisterMemoryProtectionExceptionHandlerCmos platform_ok 1 None boot_world"]
  by (simp add: registrar_located platform_ok_def boot_world_def)

text \<open>
  The library loaded and the notification fired twice, on a platform whose dispatcher
  accepts every registration: the registrar calls \<open>RegisterInterruptHandler\<close> twice,
  and the handler is installed twice. The library itself does nothing to prevent it.
\<close>

theorem second_firing_counterexample:
  "registration_calls (trace (snd (run
     [LoadLibrary platform_ok,
      ProtocolInstalled gEfiCpuArchProtocolGuid platform_ok,
      ProtocolInstalled gEfiCpuArchProtocolGuid platform_ok] boot_world))) =
     [(EXCEPT_IA32_PAGE_FAULT, MemoryProtectionExceptionHandlerCmos_ptr),
      (EXCEPT_IA32_PAGE_FAULT, MemoryProtectionExceptionHandlerCmos_ptr)] \<and>
   interrupt_handlers (snd (run
     [LoadLibrary platform_ok,
      ProtocolInstalled gEfiCpuArchProtocolGuid platform_ok,
      ProtocolInstalled gEfiCpuArchProtocolGuid platform_ok] boot_world)) =
     [(EXCEPT_IA32_PAGE_FAULT, MemoryProtectionExceptionHandlerCmos_ptr),
      (EXCEPT_IA32_PAGE_FAULT, MemoryProtectionExceptionHandlerCmos_ptr)]"
  by (simp add: constructor_enabled InstallProtocol_def SignalEvent_def registrar_located
      platform_ok_def boot_world_def)

subsection \<open>The constructor\<close>

text \<open>
  Claim C3. The constructor returns \<open>EFI_SUCCESS\<close> whatever the toggle reads and
  whatever \<open>CreateEvent\<close> and \<open>RegisterProtocolNotify\<close> answer.
\<close>

theorem constructor_always_success:
  "fst (MemoryProtectionExceptionHandlerCmosConstructor e ImageHandle SystemTable w) = EFI_SUCCESS"
  by (rule constructor_status)

text \<open>
  Claim C9. With the toggle enabled and \<open>CreateEvent\<close> failing, the constructor logs
  the failure and goes on to call \<open>RegisterProtocolNotify\<close> with the event variable
  that \<open>CreateEvent\<close> did not write, and returns \<open>EFI_SUCCESS\<close>.
\<close>

theorem constructor_notify_after_failed_create:
  "IsMemoryProtectionGlobalToggleEnabled e \<Longrightarrow> EFI_ERROR (CreateEvent_status e) \<Longrightarrow>
     fst (MemoryProtectionExceptionHandlerCmosConstructor e ImageHandle SystemTable w) = EFI_SUCCESS \<and>
     trace (snd (MemoryProtectionExceptionHandlerCmosConstructor e ImageHandle SystemTable w)) =
       trace w @
         [CreateEvent_call EVT_NOTIFY_SIGNAL TPL_CALLBACK
            CpuArchRegisterMemoryProtectionExceptionHandlerCmos_ptr None,
          DebugPrint DEBUG_INFO
            ''%a: - Failed to create CpuArch Notify Event.       Memory protections cannot be turned off via Page Fault handler\<newline>''
            [ArgStr ''MemoryProtectionExceptionHandlerCmosConstructor''],
          RegisterProtocolNotify_call gEfiCpuArchProtocolGuid (uninitialised_event e)]"
  by (simp add: constructor_status constructor_enabled)

theorem constructor_notify_after_failed_create_witness:
  "IsMemoryProtectionGlobalToggleEnabled (platform_ok\<lparr>CreateEvent_status := EFI_OUT_OF_RESOURCES\<rparr>) \<and>
   EFI_ERROR (CreateEvent_status (platform_ok\<lparr>CreateEvent_status := EFI_OUT_OF_RESOURCES\<rparr>)) \<and>
   fst (MemoryProtectionExceptionHandlerCmosConstructor
      (platform_ok\<lparr>CreateEvent_status := EFI_OUT_OF_RESOURCES\<rparr>) 0 0 boot_world) = EFI_SUCCESS \<and>
   trace (snd (MemoryProtectionExceptionHandlerCmosConstructor
      (platform_ok\<lparr>CreateEvent_status := EFI_OUT_OF_RESOURCES\<rparr>) 0 0 boot_world)) =
     [CreateEvent_call EVT_NOTIFY_SIGNAL TPL_CALLBACK
        CpuArchRegisterMemoryProtectionExceptionHandlerCmos_ptr None,
      DebugPrint DEBUG_INFO
        ''%a: - Failed to create CpuArch Notify Event.       Memory protections cannot be turned off via Page Fault handler\<newline>''
        [ArgStr ''MemoryProtectionExceptionHandlerCmosConstructor''],
      RegisterProtocolNotify_call gEfiCpuArchProtocolGuid 0]"
  using constructor_notify_after_failed_create
    [of "platform_ok\<lparr>CreateEvent_status := EFI_OUT_OF_RESOURCES\<rparr>" 0 0 boot_world]
  by (simp add: boot_world_def platform_ok_def)

subsection \<open>Whole executions\<close>

lemma step_dormant:
  "\<not> reads_toggle_enabled s \<Longrightarrow> step s boot_world = (Returned, boot_world)"
  by (cases s)
     (simp_all add: constructor_disabled InstallProtocol_def RaiseException_def boot_world_def)

lemma run_dormant:
  "list_all (\<lambda>s. \<not> reads_toggle_enabled s) ss \<Longrightarrow> run ss boot_world = (Returned, boot_world)"
  by (induction ss) (simp_all add: step_dormant)

text \<open>
  Claim C4. When the toggle reads false the constructor returns at once and leaves
  the world as it was: no call is made, so nothing is logged, no event is created and no
  notification is registered. From the start of a boot session this stays so whatever
  follows (protocol installations, exceptions, further loads that read the toggle
  false): no registration is attempted and no handler is installed, hence none can be
  called.
\<close>

theorem toggle_off_dormant:
  "\<not> IsMemoryProtectionGlobalToggleEnabled e \<Longrightarrow>
     MemoryProtectionExceptionHandlerCmosConstructor e ImageHandle SystemTable w = (EFI_SUCCESS, w) \<and>
     (list_all (\<lambda>s. \<not> reads_toggle_enabled s) ss \<longrightarrow>
        run (LoadLibrary e # ss) boot_world = (Returned, boot_world))"
  by (simp add: constructor_disabled run_dormant)

theorem toggle_off_dormant_witness:
  "\<not> IsMemoryProtectionGlobalToggleEnabled
        (platform_ok\<lparr>IsMemoryProtectionGlobalToggleEnabled := False\<rparr>) \<and>
   MemoryProtectionExceptionHandlerCmosConstructor
     (platform_ok\<lparr>IsMemoryProtectionGlobalToggleEnabled := False\<rparr>) 0 0 boot_world
     = (EFI_SUCCESS, boot_world) \<and>
   run [LoadLibrary (platform_ok\<lparr>IsMemoryProtectionGlobalToggleEnabled := False\<rparr>),
        ProtocolInstalled gEfiCpuArchProtocolGuid platform_ok,
        CpuException EXCEPT_IA32_PAGE_FAULT page_fault_context platform_ok] boot_world
     = (Returned, boot_world)"
  using toggle_off_dormant
    [of "platform_ok\<lparr>IsMemoryProtectionGlobalToggleEnabled := False\<rparr>" 0 0 boot_world
        "[ProtocolInstalled gEfiCpuArchProtocolGuid platform_ok,
          CpuException EXCEPT_IA32_PAGE_FAULT page_fault_context platform_ok]"]
  by (simp add: constructor_disabled)

lemma constructor_untouched:
  "untouched w \<Longrightarrow>
     untouched (snd (MemoryProtectionExceptionHandlerCmosConstructor e ImageHandle SystemTable w))"
  by (cases "IsMemoryProtectionGlobalToggleEnabled e")
     (simp_all add: constructor_disabled constructor_enabled untouched_def)

lemma SignalEvent_untouched:
  "EFI_ERROR (LocateProtocol_status e) \<Longrightarrow> untouched w \<Longrightarrow> untouched (SignalEvent e Event w)"
  by (simp add: SignalEvent_def registrar_locate_failed untouched_def
      split: option.split notify_function.split)

lemma signal_all_untouched:
  "EFI_ERROR (LocateProtocol_status e) \<Longrightarrow> untouched w \<Longrightarrow> untouched (signal_all e Events w)"
  by (induction Events arbitrary: w) (simp_all add: SignalEvent_untouched)

lemma step_untouched:
  assumes "subsystem_unavailable s" and "untouched w"
  shows "fst (step s w) = Returned \<and> untouched (snd (step s w))"
proof (cases s)
  case (LoadLibrary e)
  then show ?thesis using assms by (simp add: constructor_untouched)
next
  case (ProtocolInstalled guid e)
  then show ?thesis using assms by (simp add: InstallProtocol_def signal_all_untouched)
next
  case (CpuException t c e)
  moreover have "interrupt_handlers w = []" using assms(2) by (simp add: untouched_def)
  ultimately show ?thesis using assms(2) by (simp add: RaiseException_def)
qed

lemma run_untouched:
  "\<forall>s\<in>set ss. subsystem_unavailable s \<Longrightarrow> untouched w \<Longrightarrow>
     fst (run ss w) = Returned \<and> untouched (snd (run ss w))"
proof (induction ss arbitrary: w)
  case Nil
  then show ?case by simp
next
  case (Cons s ss)
  obtain k w' where sw: "step s w = (k, w')" by (cases "step s w")
  from Cons.prems have "fst (step s w) = Returned \<and> untouched (snd (step s w))"
    by (simp add: step_untouched)
  with sw have k: "k = Returned" and u: "untouched w'" by simp_all
  from Cons.prems have "\<forall>s\<in>set ss. subsystem_unavailable s" by simp
  from Cons.IH [OF this u] show ?case by (simp add: sw k)
qed

lemma untouched_boot_world: "untouched boot_world"
  by (simp add: untouched_def boot_world_def)

text \<open>
  Claim C6. In an execution from the start of a boot session in which
  \<open>LocateProtocol\<close> never finds the dispatch subsystem, the handler is never
  installed, the CMOS memory-protection byte is never written and \<open>ResetSystem\<close> is
  never called; the execution is never ended by a reset.
\<close>

theorem subsystem_never_available:
  "\<forall>s\<in>set ss. subsystem_unavailable s \<Longrightarrow>
     interrupt_handlers (snd (run ss boot_world)) = [] \<and>
     flag_writes (trace (snd (run ss boot_world))) = [] \<and>
     reset_calls (trace (snd (run ss boot_world))) = [] \<and>
     fst (run ss boot_world) = Returned"
  using run_untouched [OF _ untouched_boot_world, of ss] by (simp add: untouched_def)

theorem subsystem_never_available_witness:
  "list_all subsystem_unavailable
     [LoadLibrary platform_ok,
      ProtocolInstalled gEfiCpuArchProtocolGuid (platform_ok\<lparr>LocateProtocol_status := EFI_NOT_FOUND\<rparr>),
      CpuException EXCEPT_IA32_PAGE_FAULT page_fault_context platform_ok] \<and>
   interrupt_handlers (snd (run
     [LoadLibrary platform_ok,
      ProtocolInstalled gEfiCpuArchProtocolGuid (platform_ok\<lparr>LocateProtocol_status := EFI_NOT_FOUND\<rparr>),
      CpuException EXCEPT_IA32_PAGE_FAULT page_fault_context platform_ok] boot_world)) = [] \<and>
   flag_writes (trace (snd (run
     [LoadLibrary platform_ok,
      ProtocolInstalled gEfiCpuArchProtocolGuid (platform_ok\<lparr>LocateProtocol_status := EFI_NOT_FOUND\<rparr>),
      CpuException EXCEPT_IA32_PAGE_FAULT page_fault_context platform_ok] boot_world))) = [] \<and>
   reset_calls (trace (snd (run
     [LoadLibrary platform_ok,
      ProtocolInstalled gEfiCpuArchProtocolGuid (platform_ok\<lparr>LocateProtocol_status := EFI_NOT_FOUND\<rparr>),
      CpuException EXCEPT_IA32_PAGE_FAULT page_fault_context platform_ok] boot_world))) = []"
  using subsystem_never_available
    [of "[LoadLibrary platform_ok,
      ProtocolInstalled gEfiCpuArchProtocolGuid (platform_ok\<lparr>LocateProtocol_status := EFI_NOT_FOUND\<rparr>),
      CpuException EXCEPT_IA32_PAGE_FAULT page_fault_context platform_ok]"]
  by simp

end
